theory Spec2Isabelle
  imports Main "HOL-Library.AList"
begin

section \<open>Python values, exceptions and handler results\<close>

text \<open>
  The module \<^verbatim>\<open>routes/config_api.py\<close> holds six request handlers and two helpers.
  Strings are modelled as \<^typ>\<open>string\<close>, read as the UTF-8 bytes of the Python
  \<^verbatim>\<open>str\<close>. An object identifier is the 12-byte value the \<^verbatim>\<open>bson\<close> package keeps in
  \<^verbatim>\<open>ObjectId.binary\<close>.
\<close>

datatype objectid = Oid (binary: string)

datatype pyval =
    ObjectIdV objectid
  | StrV string
  | IntV int
  | BoolV bool
  | NoneV

text \<open>A Python \<^verbatim>\<open>dict\<close> with string keys, in insertion order.\<close>

type_synonym document = "(string \<times> pyval) list"

text \<open>
  Exceptions of the collaborators (driver, \<^verbatim>\<open>bson\<close>, the interpreter). All of them
  derive from Python's \<^verbatim>\<open>Exception\<close>; each carries the text that \<^verbatim>\<open>str(e)\<close> gives.
\<close>

datatype exn =
    AttributeError string
  | KeyError string
  | TypeError string
  | InvalidId string
  | DuplicateKeyError string
  | WriteError string
  | OperationalError string
  | OtherException string

fun str_exn :: "exn \<Rightarrow> string" where
  "str_exn (AttributeError m) = m"
| "str_exn (KeyError m) = m"
| "str_exn (TypeError m) = m"
| "str_exn (InvalidId m) = m"
| "str_exn (DuplicateKeyError m) = m"
| "str_exn (WriteError m) = m"
| "str_exn (OperationalError m) = m"
| "str_exn (OtherException m) = m"

text \<open>
  A handler either returns a value, raises \<^verbatim>\<open>HTTPException(status_code, detail)\<close>, or
  lets an exception of a collaborator escape (\<open>Raised\<close>).
\<close>

datatype error =
    HTTPException (status_code: nat) (detail: pyval)
  | Raised exn

section \<open>Hexadecimal digits\<close>

definition hexval :: "char \<Rightarrow> nat option" where
  "hexval c = map_of
     [(CHR ''0'', 0), (CHR ''1'', 1), (CHR ''2'', 2), (CHR ''3'', 3), (CHR ''4'', 4),
      (CHR ''5'', 5), (CHR ''6'', 6), (CHR ''7'', 7), (CHR ''8'', 8), (CHR ''9'', 9),
      (CHR ''a'', 10), (CHR ''b'', 11), (CHR ''c'', 12), (CHR ''d'', 13), (CHR ''e'', 14),
      (CHR ''f'', 15),
      (CHR ''A'', 10), (CHR ''B'', 11), (CHR ''C'', 12), (CHR ''D'', 13), (CHR ''E'', 14),
      (CHR ''F'', 15)] c"

definition hex_upper :: "nat \<Rightarrow> char" where
  "hex_upper n = ''0123456789ABCDEF'' ! (n mod 16)"

definition hex_lower :: "nat \<Rightarrow> char" where
  "hex_lower n = ''0123456789abcdef'' ! (n mod 16)"

section \<open>\<^verbatim>\<open>urllib.parse.quote_plus\<close>\<close>

text \<open>
  \<^verbatim>\<open>quote_plus(s)\<close> with its default arguments: the letters, the digits and
  \<^verbatim>\<open>_.-~\<close> stay, a space becomes \<^verbatim>\<open>+\<close>, and every other byte of the UTF-8 encoding
  becomes \<^verbatim>\<open>%XX\<close> with upper-case hexadecimal digits.
\<close>

definition always_safe :: "char \<Rightarrow> bool" where
  "always_safe c \<longleftrightarrow> c \<in> set (''ABCDEFGHIJKLMNOPQRSTUVWXYZ'' @ ''abcdefghijklmnopqrstuvwxyz''
     @ ''0123456789'' @ ''_.-~'')"

definition quote_byte :: "char \<Rightarrow> string" where
  "quote_byte c =
     (if always_safe c then [c]
      else if c = CHR '' '' then ''+''
      else [CHR ''%'', hex_upper (of_char c div 16), hex_upper (of_char c mod 16)])"

definition quote_plus :: "string \<Rightarrow> string" where
  "quote_plus s = concat (map quote_byte s)"

text \<open>
  The decoder \<^verbatim>\<open>urllib.parse.unquote_plus\<close>, on bytes: \<^verbatim>\<open>+\<close> becomes a space and
  \<^verbatim>\<open>%XX\<close> becomes the byte \<^verbatim>\<open>XX\<close>; a \<^verbatim>\<open>%\<close> not followed by two hexadecimal digits
  stays. The source never calls it: it is the reader's side of the round trip.
\<close>

fun unquote_plus :: "string \<Rightarrow> string" where
  "unquote_plus [] = []"
| "unquote_plus [c] = (if c = CHR ''+'' then '' '' else [c])"
| "unquote_plus [c, d] =
     (if c = CHR ''+'' then CHR '' '' # unquote_plus [d] else c # unquote_plus [d])"
| "unquote_plus (c # h # l # cs) =
     (if c = CHR ''+'' then CHR '' '' # unquote_plus (h # l # cs)
      else if c = CHR ''%'' then
        (case (hexval h, hexval l) of
           (Some a, Some b) \<Rightarrow> char_of (16 * a + b) # unquote_plus cs
         | _ \<Rightarrow> c # unquote_plus (h # l # cs))
      else c # unquote_plus (h # l # cs))"

section \<open>The connection tester\<close>

text \<open>\<^verbatim>\<open>class DBConnectionRequest(BaseModel)\<close>: five required strings.\<close>

record DBConnectionRequest =
  db_type :: string
  host_port :: string
  database :: string
  username :: string
  password :: string

text \<open>
  The relational driver (\<^verbatim>\<open>sqlalchemy\<close>) is a collaborator of the module: its three
  calls are parameters, each returning a value or raising.
\<close>

record ('e, 'c) sql_driver =
  create_engine :: "string \<Rightarrow> exn + 'e"
  connect :: "'e \<Rightarrow> exn + 'c"
  close :: "'c \<Rightarrow> exn + unit"

text \<open>The two \<^verbatim>\<open>except\<close> clauses of \<^verbatim>\<open>test_db\<close>, in the order of the source.\<close>

fun test_db_except :: "exn \<Rightarrow> bool \<times> pyval" where
  "test_db_except (OperationalError m) = (False, StrV (str_exn (OperationalError m)))"
| "test_db_except e = (False, StrV (str_exn e))"

definition test_db :: "('e, 'c) sql_driver \<Rightarrow> string \<Rightarrow> bool \<times> pyval" where
  "test_db drv db_url =
     (case create_engine drv db_url of
        Inl e \<Rightarrow> test_db_except e
      | Inr engine \<Rightarrow>
          (case connect drv engine of
             Inl e \<Rightarrow> test_db_except e
           | Inr conn \<Rightarrow>
               (case close drv conn of
                  Inl e \<Rightarrow> test_db_except e
                | Inr _ \<Rightarrow> (True, NoneV))))"

text \<open>The f-string of \<^verbatim>\<open>test_db_connection\<close>.\<close>

definition db_url_of :: "DBConnectionRequest \<Rightarrow> string" where
  "db_url_of data =
     (let encoded_password = quote_plus (password data)
      in db_type data @ ''://'' @ username data @ '':'' @ encoded_password @ ''@''
         @ host_port data @ ''/'' @ database data)"

definition test_db_connection ::
  "('e, 'c) sql_driver \<Rightarrow> DBConnectionRequest \<Rightarrow> error + document" where
  "test_db_connection drv data =
     (let db_url = db_url_of data;
          (success, error_message) = test_db drv db_url
      in if success then Inr [(''status'', StrV ''Database connection successful'')]
         else Inl (HTTPException 500 error_message))"

section \<open>Object identifiers and \<^verbatim>\<open>str\<close>\<close>

text \<open>
  \<^verbatim>\<open>bytes.fromhex\<close>: pairs of hexadecimal digits, with any run of ASCII whitespace
  before a pair and at the end; anything else is a \<^verbatim>\<open>ValueError\<close> (\<open>None\<close>).
\<close>

definition is_space :: "char \<Rightarrow> bool" where
  "is_space c \<longleftrightarrow> c \<in> set [CHR '' '', CHR 0x09, CHR 0x0A, CHR 0x0B, CHR 0x0C, CHR 0x0D]"

fun fromhex :: "string \<Rightarrow> string option" where
  "fromhex [] = Some []"
| "fromhex [c] = (if is_space c then Some [] else None)"
| "fromhex (h # l # cs) =
     (if is_space h then fromhex (l # cs)
      else (case (hexval h, hexval l, fromhex cs) of
              (Some a, Some b, Some bs) \<Rightarrow> Some (char_of (16 * a + b) # bs)
            | _ \<Rightarrow> None))"

text \<open>
  \<^verbatim>\<open>bson.objectid.ObjectId(oid)\<close> on a string: a string of length 24 is handed to
  \<^verbatim>\<open>bytes.fromhex\<close>, and what that returns is the identifier; a string of another
  length, or one that \<^verbatim>\<open>bytes.fromhex\<close> refuses, raises \<^verbatim>\<open>InvalidId\<close>. So 24
  hexadecimal digits give 12 bytes, and a string of 24 characters with whitespace
  between its digit pairs gives fewer. \<^verbatim>\<open>str\<close> of an identifier is the lower-case
  hexadecimal form of its bytes.
\<close>

definition ObjectId :: "string \<Rightarrow> exn + objectid" where
  "ObjectId oid =
     (if length oid = 24 then
        (case fromhex oid of
           Some bs \<Rightarrow> Inr (Oid bs)
         | None \<Rightarrow> Inl (InvalidId oid))
      else Inl (InvalidId oid))"

definition hexlify :: "string \<Rightarrow> string" where
  "hexlify bs = concat (map (\<lambda>c. [hex_lower (of_char c div 16), hex_lower (of_char c mod 16)]) bs)"

fun digits :: "nat \<Rightarrow> string" where
  "digits n = (if n < 10 then [hex_lower n] else digits (n div 10) @ [hex_lower (n mod 10)])"

definition str_int :: "int \<Rightarrow> string" where
  "str_int i = (if i < 0 then ''-'' @ digits (nat (- i)) else digits (nat i))"

fun str_py :: "pyval \<Rightarrow> string" where
  "str_py (ObjectIdV oid) = hexlify (binary oid)"
| "str_py (StrV s) = s"
| "str_py (IntV i) = str_int i"
| "str_py (BoolV b) = (if b then ''True'' else ''False'')"
| "str_py NoneV = ''None''"

text \<open>Python truth value, as \<^verbatim>\<open>if result.inserted_id:\<close> takes it.\<close>

fun truthy :: "pyval \<Rightarrow> bool" where
  "truthy (ObjectIdV oid) = True"
| "truthy (StrV s) = (s \<noteq> [])"
| "truthy (IntV i) = (i \<noteq> 0)"
| "truthy (BoolV b) = b"
| "truthy NoneV = False"

section \<open>The document store\<close>

text \<open>
  The collection behind \<^verbatim>\<open>get_mongo_collection(CONFIGS_COLLECTION)\<close> is a collaborator
  of the module. It is modelled in memory, by the documented behaviour of the five
  driver calls the handlers make. A stored document is its \<^verbatim>\<open>_id\<close> and its other
  fields; the collection keeps the documents in insertion order.
\<close>

type_synonym collection = "(pyval \<times> document) list"

definition as_dict :: "pyval \<times> document \<Rightarrow> document" where
  "as_dict s = (''_id'', fst s) # snd s"

text \<open>\<^verbatim>\<open>collection.find()\<close>, iterated to the end.\<close>

definition find_all :: "collection \<Rightarrow> document list" where
  "find_all c = map as_dict c"

text \<open>\<^verbatim>\<open>collection.find_one({"_id": i})\<close>: the first match, or \<^verbatim>\<open>None\<close>.\<close>

definition find_one :: "collection \<Rightarrow> pyval \<Rightarrow> document option" where
  "find_one c i = map_option as_dict (List.find (\<lambda>s. fst s = i) c)"

record InsertOneResult =
  inserted_id :: pyval

record UpdateResult =
  matched_count :: nat
  modified_count :: nat

record DeleteResult =
  deleted_count :: nat

text \<open>
  \<^verbatim>\<open>collection.insert_one(document)\<close>: a document without \<^verbatim>\<open>_id\<close> gets a new
  \<^verbatim>\<open>ObjectId\<close> (the argument \<open>fresh\<close>, generated by the driver) written into the
  caller's dict; a second document with a stored \<^verbatim>\<open>_id\<close> is refused. The call returns
  its result, the caller's dict after the call, and the collection.
\<close>

definition store_new ::
  "collection \<Rightarrow> pyval \<Rightarrow> document \<Rightarrow> exn + (InsertOneResult \<times> document \<times> collection)" where
  "store_new c i doc =
     (if i \<in> set (map fst c) then Inl (DuplicateKeyError ''E11000 duplicate key error'')
      else Inr (\<lparr>inserted_id = i\<rparr>, doc, c @ [(i, AList.delete ''_id'' doc)]))"

definition insert_one ::
  "collection \<Rightarrow> document \<Rightarrow> objectid \<Rightarrow> exn + (InsertOneResult \<times> document \<times> collection)" where
  "insert_one c doc fresh =
     (case map_of doc ''_id'' of
        None \<Rightarrow> store_new c (ObjectIdV fresh) (doc @ [(''_id'', ObjectIdV fresh)])
      | Some i \<Rightarrow> store_new c i doc)"

text \<open>
  \<^verbatim>\<open>{"$set": upd}\<close> on the fields of one document, field by field in the order of
  \<open>upd\<close>: a field of \<open>upd\<close> replaces the field of that name, or is added at the end;
  the others stay.
\<close>

fun set_fields :: "document \<Rightarrow> document \<Rightarrow> document" where
  "set_fields [] f = f"
| "set_fields ((k, v) # upd) f = set_fields upd (AList.update k v f)"

text \<open>
  \<^verbatim>\<open>collection.update_one({"_id": i}, {"$set": upd})\<close> on the first match. The server
  refuses a change of \<^verbatim>\<open>_id\<close>; \<^verbatim>\<open>modified_count\<close> counts a document only if the update
  changed it (an empty \<^verbatim>\<open>$set\<close> is taken as a server of version 5 or later takes it: as
  an update that changes nothing).
\<close>

fun update_one :: "collection \<Rightarrow> pyval \<Rightarrow> document \<Rightarrow> exn + (UpdateResult \<times> collection)" where
  "update_one [] i upd = Inr (\<lparr>matched_count = 0, modified_count = 0\<rparr>, [])"
| "update_one (s # c) i upd =
     (if fst s = i then
        (if map_of upd ''_id'' \<noteq> None \<and> map_of upd ''_id'' \<noteq> Some i
         then Inl (WriteError ''Performing an update on the path _id would modify the immutable field _id'')
         else (let f = set_fields (AList.delete ''_id'' upd) (snd s)
               in Inr (\<lparr>matched_count = 1, modified_count = (if f = snd s then 0 else 1)\<rparr>,
                       (i, f) # c)))
      else (case update_one c i upd of
              Inl e \<Rightarrow> Inl e
            | Inr (r, c') \<Rightarrow> Inr (r, s # c')))"

text \<open>\<^verbatim>\<open>collection.delete_one({"_id": i})\<close>: removes the first match, if any.\<close>

fun delete_one :: "collection \<Rightarrow> pyval \<Rightarrow> DeleteResult \<times> collection" where
  "delete_one [] i = (\<lparr>deleted_count = 0\<rparr>, [])"
| "delete_one (s # c) i =
     (if fst s = i then (\<lparr>deleted_count = 1\<rparr>, c)
      else (case delete_one c i of (r, c') \<Rightarrow> (r, s # c')))"

section \<open>The configuration schema\<close>

text \<open>
  Modelled from the spec: \<^verbatim>\<open>TafsiriConfigSchema\<close> (\<^verbatim>\<open>database/schema.py\<close>, not among
  the sources). The spec gives it an implementation-defined set of fields and "an
  explicit only-the-fields-present-in-this-instance marker". A validated instance is the
  value of every field, defaults included, and the names of the fields the request set;
  \<^verbatim>\<open>model_dump(exclude_unset=True)\<close> builds a dict of the fields that were set, in the
  order of the fields.
\<close>

record TafsiriConfigSchema =
  field_values :: document
  fields_set :: "string list"

text \<open>
  Building a \<^verbatim>\<open>dict\<close> from pairs: a key keeps the place of its first pair and the
  value of its last.
\<close>

definition dict_of :: "(string \<times> pyval) list \<Rightarrow> document" where
  "dict_of kvs = fold (\<lambda>(k, v). AList.update k v) kvs []"

definition model_dump_exclude_unset :: "TafsiriConfigSchema \<Rightarrow> document" where
  "model_dump_exclude_unset config =
     dict_of (filter (\<lambda>(k, v). k \<in> set (fields_set config)) (field_values config))"

section \<open>The handlers of the configuration store\<close>

definition sq :: string where
  "sq = [CHR 0x27]"

definition none_has_no :: "string \<Rightarrow> exn" where
  "none_has_no a = AttributeError (sq @ ''NoneType'' @ sq @ '' object has no attribute '' @ sq @ a @ sq)"

definition format_mongo_obj :: "document \<Rightarrow> error + document" where
  "format_mongo_obj obj =
     (case map_of obj ''_id'' of
        None \<Rightarrow> Inl (Raised (KeyError (sq @ ''_id'' @ sq)))
      | Some v \<Rightarrow> Inr (AList.update ''_id'' (StrV (str_py v)) obj))"

text \<open>The list comprehension of \<^verbatim>\<open>get_configs\<close>: it stops at the first exception.\<close>

fun format_each :: "document list \<Rightarrow> error + document list" where
  "format_each [] = Inr []"
| "format_each (config # rest) =
     (case format_mongo_obj config of
        Inl e \<Rightarrow> Inl e
      | Inr d \<Rightarrow> (case format_each rest of Inl e \<Rightarrow> Inl e | Inr ds \<Rightarrow> Inr (d # ds)))"

text \<open>
  In every handler the argument \<open>collection\<close> is what
  \<^verbatim>\<open>get_mongo_collection(CONFIGS_COLLECTION)\<close> gave: a handle, or \<^verbatim>\<open>None\<close>.
\<close>

definition get_configs :: "collection option \<Rightarrow> error + document list" where
  "get_configs collection =
     (case collection of
        None \<Rightarrow> Inl (Raised (none_has_no ''find''))
      | Some c \<Rightarrow> format_each (find_all c))"

definition create_new_config ::
  "collection option \<Rightarrow> TafsiriConfigSchema \<Rightarrow> objectid \<Rightarrow> (error + document) \<times> collection option" where
  "create_new_config collection config fresh =
     (let config_data = model_dump_exclude_unset config
      in case collection of
           None \<Rightarrow> (Inl (Raised (none_has_no ''insert_one'')), None)
         | Some c \<Rightarrow>
             (case insert_one c config_data fresh of
                Inl e \<Rightarrow> (Inl (Raised e), Some c)
              | Inr (result, config_data', c') \<Rightarrow>
                  if truthy (inserted_id result) then (format_mongo_obj config_data', Some c')
                  else (Inl (HTTPException 400 (StrV ''Configuration could not be created'')),
                        Some c')))"

definition get_config :: "collection option \<Rightarrow> string \<Rightarrow> error + document" where
  "get_config collection config_id =
     (case collection of
        None \<Rightarrow> Inl (HTTPException 500 (StrV ''Collection not found''))
      | Some c \<Rightarrow>
          (case ObjectId config_id of
             Inl e \<Rightarrow> Inl (HTTPException 400 (StrV ''Invalid config ID format''))
           | Inr oid \<Rightarrow>
               (case find_one c (ObjectIdV oid) of
                  None \<Rightarrow> Inl (HTTPException 404 (StrV ''Config not found''))
                | Some config \<Rightarrow>
                    (case map_of config ''_id'' of
                       None \<Rightarrow> Inl (Raised (KeyError (sq @ ''_id'' @ sq)))
                     | Some v \<Rightarrow> Inr (AList.update ''_id'' (StrV (str_py v)) config)))))"

definition update_config ::
  "collection option \<Rightarrow> string \<Rightarrow> TafsiriConfigSchema \<Rightarrow> (error + document) \<times> collection option" where
  "update_config collection config_id updated_config =
     (case collection of
        None \<Rightarrow> (Inl (HTTPException 500 (StrV ''Collection not found'')), None)
      | Some c \<Rightarrow>
          (case ObjectId config_id of
             Inl e \<Rightarrow> (Inl (HTTPException 400 (StrV ''Invalid config ID format'')), Some c)
           | Inr oid \<Rightarrow>
               (case find_one c (ObjectIdV oid) of
                  None \<Rightarrow> (Inl (HTTPException 404 (StrV ''Config not found'')), Some c)
                | Some config_data \<Rightarrow>
                    (let updated_data = model_dump_exclude_unset updated_config
                     in case update_one c (ObjectIdV oid) updated_data of
                          Inl e \<Rightarrow> (Inl (Raised e), Some c)
                        | Inr (result, c') \<Rightarrow>
                            if modified_count result = 1 then
                              (case find_one c' (ObjectIdV oid) of
                                 None \<Rightarrow>
                                   (Inl (Raised (TypeError
                                      (sq @ ''NoneType'' @ sq @ '' object is not subscriptable''))),
                                    Some c')
                               | Some updated_config_data \<Rightarrow>
                                   (format_mongo_obj updated_config_data, Some c'))
                            else
                              (Inl (HTTPException 400 (StrV ''Configuration could not be updated'')),
                               Some c')))))"

definition delete_config ::
  "collection option \<Rightarrow> string \<Rightarrow> (error + document) \<times> collection option" where
  "delete_config collection config_id =
     (case collection of
        None \<Rightarrow> (Inl (HTTPException 500 (StrV ''Collection not found'')), None)
      | Some c \<Rightarrow>
          (case ObjectId config_id of
             Inl e \<Rightarrow> (Inl (HTTPException 400 (StrV ''Invalid config ID format'')), Some c)
           | Inr oid \<Rightarrow>
               (case delete_one c (ObjectIdV oid) of
                  (result, c') \<Rightarrow>
                    if deleted_count result = 1
                    then (Inr [(''message'', StrV ''Config deleted successfully'')], Some c')
                    else (Inl (HTTPException 404 (StrV ''Config not found'')), Some c'))))"

section \<open>Lemmas on the encoding\<close>

lemma lt16_cases:
  "n < (16::nat) \<Longrightarrow> n \<in> {0, 1, 2, 3, 4, 5, 6, 7, 8, 9, 10, 11, 12, 13, 14, 15}"
  by simp arith

lemma hexval_upper_all: "list_all (\<lambda>n. hexval (hex_upper n) = Some n) [0..<16]"
  by code_simp

lemma hexval_hex_upper: "n < 16 \<Longrightarrow> hexval (hex_upper n) = Some n"
  using hexval_upper_all by (simp only: list_all_iff) simp

lemma hex_upper_in: "hex_upper n \<in> set ''0123456789ABCDEF''"
  using lt16_cases [of "n mod 16"] by (auto simp: hex_upper_def)

lemma always_safe_plain:
  "always_safe c \<Longrightarrow> c \<noteq> CHR ''+'' \<and> c \<noteq> CHR ''%'' \<and> c \<noteq> CHR ''@'' \<and> c \<noteq> CHR '':'' \<and> c \<noteq> CHR ''/''"
  by (auto simp: always_safe_def)

lemma unquote_plus_plain:
  "c \<noteq> CHR ''+'' \<Longrightarrow> c \<noteq> CHR ''%'' \<Longrightarrow> unquote_plus (c # s) = c # unquote_plus s"
  by (cases "(c # s)" rule: unquote_plus.cases) auto

lemma unquote_plus_plus: "unquote_plus (CHR ''+'' # s) = CHR '' '' # unquote_plus s"
  by (cases "(CHR ''+'' # s)" rule: unquote_plus.cases) auto

lemma unquote_plus_escape:
  "hexval h = Some a \<Longrightarrow> hexval l = Some b \<Longrightarrow>
   unquote_plus (CHR ''%'' # h # l # s) = char_of (16 * a + b) # unquote_plus s"
  by simp

lemma nibble_bounds: "(of_char c :: nat) div 16 < 16" "(of_char c :: nat) mod 16 < 16"
proof -
  have "(of_char c :: nat) < 256" by (rule nat_of_char_less_256)
  then show "(of_char c :: nat) div 16 < 16" by arith
  show "(of_char c :: nat) mod 16 < 16" by simp
qed

lemma unquote_plus_quote_byte: "unquote_plus (quote_byte c @ s) = c # unquote_plus s"
proof (cases "always_safe c")
  case True
  then show ?thesis
    using always_safe_plain [of c] by (simp add: quote_byte_def unquote_plus_plain)
next
  case False
  show ?thesis
  proof (cases "c = CHR '' ''")
    case True
    with False show ?thesis by (simp add: quote_byte_def unquote_plus_plus)
  next
    case space: False
    have "unquote_plus (CHR ''%'' # hex_upper (of_char c div 16) # hex_upper (of_char c mod 16) # s)
          = char_of (16 * (of_char c div 16) + of_char c mod 16 :: nat) # unquote_plus s"
      by (rule unquote_plus_escape) (rule hexval_hex_upper, rule nibble_bounds)+
    with False space show ?thesis by (simp add: quote_byte_def)
  qed
qed

lemma unquote_plus_quote_plus: "unquote_plus (quote_plus s) = s"
  by (induction s) (simp_all add: quote_plus_def unquote_plus_quote_byte)

lemma hex_upper_safe: "always_safe (hex_upper n)"
  using hex_upper_in [of n] by (auto simp: always_safe_def)

lemma quote_byte_chars:
  "set (quote_byte c) \<subseteq> {d. always_safe d} \<union> {CHR ''+'', CHR ''%''}"
  by (simp add: quote_byte_def hex_upper_safe)

lemma quote_plus_chars:
  "set (quote_plus s) \<subseteq> {d. always_safe d} \<union> {CHR ''+'', CHR ''%''}"
  using quote_byte_chars by (induction s) (auto simp: quote_plus_def)

lemma quote_plus_no_delimiter:
  "CHR ''@'' \<notin> set (quote_plus s)" "CHR '':'' \<notin> set (quote_plus s)" "CHR ''/'' \<notin> set (quote_plus s)"
  using quote_plus_chars [of s] always_safe_plain by auto

section \<open>The connection tester: results\<close>

lemma test_db_except_eq: "test_db_except e = (False, StrV (str_exn e))"
  by (cases e) simp_all

text \<open>
  C9. \<open>test_db\<close> always returns: either the engine is created, the connection opened and
  closed, and the result is \<^verbatim>\<open>(True, None)\<close>; or one of the three calls raised an
  exception \<open>e\<close>, and the result is \<^verbatim>\<open>(False, str(e))\<close>. No exception reaches the caller:
  the result is a pair in every case.
\<close>

theorem test_db_total:
  "(\<exists>engine conn. create_engine drv db_url = Inr engine \<and> connect drv engine = Inr conn
       \<and> close drv conn = Inr () \<and> test_db drv db_url = (True, NoneV))
   \<or> (\<exists>e. (create_engine drv db_url = Inl e
          \<or> (\<exists>engine. create_engine drv db_url = Inr engine
                \<and> (connect drv engine = Inl e
                   \<or> (\<exists>conn. connect drv engine = Inr conn \<and> close drv conn = Inl e))))
        \<and> test_db drv db_url = (False, StrV (str_exn e)))"
  by (auto simp: test_db_def test_db_except_eq split: sum.splits)

text \<open>
  C7. \<open>test_db_connection\<close>: when the engine is created and the connection opened and
  closed without an exception, the handler returns the success status and nothing else;
  when one of the three calls raises \<open>e\<close>, it raises \<^verbatim>\<open>HTTPException(500)\<close> whose detail
  is \<^verbatim>\<open>str(e)\<close>, unchanged.
\<close>

theorem test_db_connection_result:
  "(\<exists>engine conn. create_engine drv (db_url_of data) = Inr engine \<and> connect drv engine = Inr conn
       \<and> close drv conn = Inr ()
       \<and> test_db_connection drv data = Inr [(''status'', StrV ''Database connection successful'')])
   \<or> (\<exists>e. (create_engine drv (db_url_of data) = Inl e
          \<or> (\<exists>engine. create_engine drv (db_url_of data) = Inr engine
                \<and> (connect drv engine = Inl e
                   \<or> (\<exists>conn. connect drv engine = Inr conn \<and> close drv conn = Inl e))))
        \<and> test_db_connection drv data = Inl (HTTPException 500 (StrV (str_exn e))))"
  by (auto simp: test_db_connection_def test_db_def test_db_except_eq split: sum.splits)

text \<open>
  C6. The connection string is
  \<^verbatim>\<open><db_type>://<username>:<quote_plus(password)>@<host_port>/<database>\<close>. The encoded
  password consists of letters, digits, \<^verbatim>\<open>_.-~\<close>, \<^verbatim>\<open>+\<close> (for a space) and \<^verbatim>\<open>%XX\<close>
  escapes only, so it holds no \<^verbatim>\<open>@\<close>, \<^verbatim>\<open>:\<close> or \<^verbatim>\<open>/\<close>, and decoding it gives the
  password back.
\<close>

theorem connection_string_assembly:
  "db_url_of data = db_type data @ ''://'' @ username data @ '':'' @ quote_plus (password data)
       @ ''@'' @ host_port data @ ''/'' @ database data
   \<and> set (quote_plus (password data)) \<subseteq> {d. always_safe d} \<union> {CHR ''+'', CHR ''%''}
   \<and> CHR ''@'' \<notin> set (quote_plus (password data))
   \<and> CHR '':'' \<notin> set (quote_plus (password data))
   \<and> CHR ''/'' \<notin> set (quote_plus (password data))
   \<and> unquote_plus (quote_plus (password data)) = password data"
  using quote_plus_chars [of "password data"] quote_plus_no_delimiter [of "password data"]
  by (simp add: db_url_of_def unquote_plus_quote_plus)

text \<open>
  C10. \<open>db_type\<close>, \<open>username\<close>, \<open>host_port\<close> and \<open>database\<close> enter the connection string as
  they are. A user name with \<^verbatim>\<open>:\<close> and \<^verbatim>\<open>@\<close> therefore breaks the authority part: the
  request of user \<^verbatim>\<open>a:p@b\<close> at host \<^verbatim>\<open>h\<close> and the request of user \<^verbatim>\<open>a\<close> at host
  \<^verbatim>\<open>b:p@h\<close> (same password) give one and the same string.
\<close>

theorem only_password_encoded:
  "db_url_of data = db_type data @ ''://'' @ username data @ '':'' @ quote_plus (password data)
       @ ''@'' @ host_port data @ ''/'' @ database data
   \<and> db_url_of \<lparr>db_type = ''mysql'', host_port = ''h'', database = ''d'',
                 username = ''a:p@b'', password = ''p''\<rparr>
     = db_url_of \<lparr>db_type = ''mysql'', host_port = ''b:p@h'', database = ''d'',
                   username = ''a'', password = ''p''\<rparr>"
  by (simp add: db_url_of_def quote_plus_def quote_byte_def always_safe_def)

section \<open>Lemmas on the document store\<close>

lemma find_one_None: "find_one c i = None \<longleftrightarrow> i \<notin> fst ` set c"
  by (force simp: find_one_def find_None_iff)

lemma find_one_Cons:
  "find_one (s # c) i = (if fst s = i then Some ((''_id'', i) # snd s) else find_one c i)"
  by (simp add: find_one_def as_dict_def)

lemma find_one_in:
  "i \<in> fst ` set c \<Longrightarrow> \<exists>f. (i, f) \<in> set c \<and> find_one c i = Some ((''_id'', i) # f)"
  by (induction c) (auto simp: find_one_Cons)

lemma format_each_find_all:
  "format_each (find_all c) = Inr (map (\<lambda>s. (''_id'', StrV (str_py (fst s))) # snd s) c)"
  by (induction c) (simp_all add: find_all_def as_dict_def format_mongo_obj_def)

lemma map_of_set_fields:
  "distinct (map fst upd) \<Longrightarrow> map_of (set_fields upd f) = map_of f ++ map_of upd"
proof (induction upd f rule: set_fields.induct)
  case (1 f)
  then show ?case by simp
next
  case (2 k v upd f)
  then have "map_of upd k = None" by (simp add: map_of_eq_None_iff)
  with 2 show ?case
    by (auto simp: update_conv' fun_eq_iff map_add_def split: option.splits)
qed

lemma set_fields_same:
  "(\<And>k v. (k, v) \<in> set upd \<Longrightarrow> map_of f k = Some v) \<Longrightarrow> set_fields upd f = f"
  by (induction upd f rule: set_fields.induct) (simp_all add: update_triv)

lemma fold_update_distinct:
  "distinct (map fst acc) \<Longrightarrow>
   distinct (map fst (fold (\<lambda>(k, v). AList.update k v) kvs acc))"
  by (induction kvs arbitrary: acc) (auto simp: distinct_update)

lemma fold_update_keys:
  "fst ` set (fold (\<lambda>(k, v). AList.update k v) kvs acc) = fst ` set acc \<union> fst ` set kvs"
proof (induction kvs arbitrary: acc)
  case Nil
  then show ?case by simp
next
  case (Cons p kvs)
  obtain k v where p: "p = (k, v)" by (cases p)
  have "fst ` set (AList.update k v acc) = insert k (fst ` set acc)"
    by (simp add: dom_update)
  with Cons [of "AList.update k v acc"] p show ?case by auto
qed

lemma update_entries: "set (AList.update k v al) \<subseteq> insert (k, v) (set al)"
  by (induction al) auto

lemma fold_update_entries:
  "set (fold (\<lambda>(k, v). AList.update k v) kvs acc) \<subseteq> set acc \<union> set kvs"
proof (induction kvs arbitrary: acc)
  case Nil
  then show ?case by simp
next
  case (Cons p kvs)
  obtain k v where p: "p = (k, v)" by (cases p)
  from Cons [of "AList.update k v acc"] update_entries [of k v acc] p
  show ?case by auto
qed

lemma update_absent: "k \<notin> fst ` set al \<Longrightarrow> AList.update k v al = al @ [(k, v)]"
  by (induction al) auto

lemma fold_update_fresh:
  "distinct (map fst kvs) \<Longrightarrow> fst ` set kvs \<inter> fst ` set acc = {} \<Longrightarrow>
   fold (\<lambda>(k, v). AList.update k v) kvs acc = acc @ kvs"
proof (induction kvs arbitrary: acc)
  case Nil
  then show ?case by simp
next
  case (Cons p kvs)
  obtain k v where p: "p = (k, v)" by (cases p)
  from Cons.prems p have k: "k \<notin> fst ` set acc" by auto
  from Cons.prems p k have "fst ` set kvs \<inter> fst ` set (acc @ [(k, v)]) = {}"
    by (auto simp: image_iff)
  with Cons.IH [of "acc @ [(k, v)]"] Cons.prems p k show ?case
    by (simp add: update_absent)
qed

lemma dict_of_distinct: "distinct (map fst kvs) \<Longrightarrow> dict_of kvs = kvs"
  using fold_update_fresh [of kvs "[]"] by (simp add: dict_of_def)

lemma distinct_dict_of: "distinct (map fst (dict_of kvs))"
  by (simp add: dict_of_def fold_update_distinct)

lemma keys_dict_of: "fst ` set (dict_of kvs) = fst ` set kvs"
  by (simp add: dict_of_def fold_update_keys)

lemma entries_dict_of: "set (dict_of kvs) \<subseteq> set kvs"
  using fold_update_entries [of kvs "[]"] by (simp add: dict_of_def)

lemma distinct_model_dump: "distinct (map fst (model_dump_exclude_unset config))"
  by (simp add: model_dump_exclude_unset_def distinct_dict_of)

lemma delete_absent: "map_of al k = None \<Longrightarrow> AList.delete k al = al"
  by (induction al) (auto simp: AList.delete_eq split: if_splits)

lemma delete_appended:
  "map_of al k = None \<Longrightarrow> AList.delete k (al @ [(k, v)]) = al"
  by (induction al) (auto simp: AList.delete_eq split: if_splits)

lemma update_appended:
  "map_of al k = None \<Longrightarrow> AList.update k w (al @ [(k, v)]) = al @ [(k, w)]"
  by (induction al) (auto split: if_splits)

lemma update_one_found:
  "find_one c i = Some d \<Longrightarrow> map_of upd ''_id'' = None \<Longrightarrow>
   \<exists>c' f. d = (''_id'', i) # f
     \<and> update_one c i upd =
         Inr (\<lparr>matched_count = 1, modified_count = (if set_fields upd f = f then 0 else 1)\<rparr>, c')
     \<and> find_one c' i = Some ((''_id'', i) # set_fields upd f)
     \<and> (\<forall>j. j \<noteq> i \<longrightarrow> find_one c' j = find_one c j)
     \<and> map fst c' = map fst c
     \<and> (set_fields upd f = f \<longrightarrow> c' = c)"
proof (induction c)
  case Nil
  then show ?case by (simp add: find_one_def)
next
  case (Cons s c)
  show ?case
  proof (cases "fst s = i")
    case True
    with Cons.prems show ?thesis
      by (cases s) (auto simp: find_one_Cons delete_absent Let_def)
  next
    case False
    with Cons.prems have "find_one c i = Some d" by (simp add: find_one_Cons)
    from Cons.IH [OF this Cons.prems(2)] obtain c' f where
      *: "d = (''_id'', i) # f"
         "update_one c i upd =
           Inr (\<lparr>matched_count = 1, modified_count = (if set_fields upd f = f then 0 else 1)\<rparr>, c')"
         "find_one c' i = Some ((''_id'', i) # set_fields upd f)"
         "\<forall>j. j \<noteq> i \<longrightarrow> find_one c' j = find_one c j"
         "map fst c' = map fst c"
         "set_fields upd f = f \<longrightarrow> c' = c"
      by blast
    with False show ?thesis
      by (intro exI [of _ "s # c'"] exI [of _ f]) (simp add: find_one_Cons)
  qed
qed

lemma delete_one_absent:
  "i \<notin> fst ` set c \<Longrightarrow> delete_one c i = (\<lparr>deleted_count = 0\<rparr>, c)"
  by (induction c) auto

lemma delete_one_present:
  "i \<in> fst ` set c \<Longrightarrow>
   \<exists>c'. delete_one c i = (\<lparr>deleted_count = 1\<rparr>, c') \<and> length c = Suc (length c')
      \<and> set c' \<subseteq> set c \<and> (distinct (map fst c) \<longrightarrow> i \<notin> fst ` set c')"
proof (induction c)
  case Nil
  then show ?case by simp
next
  case (Cons s c)
  show ?case
  proof (cases "fst s = i")
    case True
    then show ?thesis by (auto simp: image_iff)
  next
    case False
    with Cons.prems have "i \<in> fst ` set c" by auto
    from Cons.IH [OF this] obtain c' where
      "delete_one c i = (\<lparr>deleted_count = 1\<rparr>, c')" "length c = Suc (length c')"
      "set c' \<subseteq> set c" "distinct (map fst c) \<longrightarrow> i \<notin> fst ` set c'"
      by blast
    with False show ?thesis
      by (intro exI [of _ "s # c'"]) auto
  qed
qed

text \<open>The three writing calls keep the \<^verbatim>\<open>_id\<close> values of a collection distinct.\<close>

lemma update_one_ids: "update_one c i upd = Inr (r, c') \<Longrightarrow> map fst c' = map fst c"
  by (induction c arbitrary: r c') (auto simp: Let_def split: if_splits sum.splits)

lemma delete_one_ids: "distinct (map fst c) \<Longrightarrow> distinct (map fst (snd (delete_one c i)))"
proof (induction c)
  case Nil
  then show ?case by simp
next
  case (Cons s c)
  then show ?case
  proof (cases "i \<in> fst ` set c")
    case True
    from delete_one_present [OF this] Cons show ?thesis
      by (auto simp: image_iff subset_iff split: prod.splits)
  next
    case False
    with Cons show ?thesis by (auto simp: delete_one_absent)
  qed
qed

lemma insert_one_ids:
  "distinct (map fst c) \<Longrightarrow> insert_one c doc fresh = Inr (r, doc', c') \<Longrightarrow> distinct (map fst c')"
  by (auto simp: insert_one_def store_new_def split: option.splits if_splits)

lemma hexval_not_space: "hexval c = Some a \<Longrightarrow> \<not> is_space c"
  by (auto simp: hexval_def is_space_def split: if_splits)

lemma fromhex_length:
  "fromhex s = Some bs \<Longrightarrow> length s = 2 * length bs + length (filter is_space s)"
  by (induction s arbitrary: bs rule: fromhex.induct)
    (auto split: option.splits if_splits dest: hexval_not_space)

lemma ObjectId_length:
  "ObjectId s = Inr oid \<Longrightarrow> 2 * length (binary oid) + length (filter is_space s) = 24"
  by (auto simp: ObjectId_def split: if_splits option.splits dest: fromhex_length)

lemma update_one_noop:
  "find_one c i = Some d \<Longrightarrow> (\<And>k v. (k, v) \<in> set upd \<Longrightarrow> map_of d k = Some v) \<Longrightarrow>
   update_one c i upd = Inr (\<lparr>matched_count = 1, modified_count = 0\<rparr>, c)"
proof (induction c)
  case Nil
  then show ?case by (simp add: find_one_def)
next
  case (Cons s c)
  show ?case
  proof (cases "fst s = i")
    case True
    with Cons.prems(1) have d: "d = (''_id'', i) # snd s" by (simp add: find_one_Cons)
    have id: "map_of upd ''_id'' = None \<or> map_of upd ''_id'' = Some i"
    proof (cases "map_of upd ''_id''")
      case None
      then show ?thesis by simp
    next
      case (Some v)
      then have "(''_id'', v) \<in> set upd" by (rule map_of_SomeD)
      from Cons.prems(2) [OF this] d have "v = i" by simp
      with Some show ?thesis by simp
    qed
    have "set_fields (AList.delete ''_id'' upd) (snd s) = snd s"
    proof (rule set_fields_same)
      fix k v
      assume "(k, v) \<in> set (AList.delete ''_id'' upd)"
      then have "k \<noteq> ''_id''" "(k, v) \<in> set upd" by (auto simp: AList.delete_eq)
      with Cons.prems(2) [of k v] d show "map_of (snd s) k = Some v" by simp
    qed
    with True id show ?thesis by (cases s) auto
  next
    case False
    with Cons.prems(1) have "find_one c i = Some d" by (simp add: find_one_Cons)
    from Cons.IH [OF this Cons.prems(2)] False show ?thesis by simp
  qed
qed

lemma map_of_appended:
  "map_of al k = None \<Longrightarrow> map_of (al @ [(k, v)]) = (map_of al)(k \<mapsto> v)"
  by (auto simp: fun_eq_iff map_add_def split: option.splits)

lemma insert_one_result:
  assumes "insert_one c doc fresh = Inr (result, doc', c')"
  shows "c' = c @ [(inserted_id result, AList.delete ''_id'' doc)]"
    and "map_of doc' = (map_of doc)(''_id'' \<mapsto> inserted_id result)"
    and "map_of doc' ''_id'' = Some (inserted_id result)"
proof -
  show "c' = c @ [(inserted_id result, AList.delete ''_id'' doc)]"
    using assms
    by (auto simp: insert_one_def store_new_def delete_appended delete_absent
        split: option.splits if_splits)
  show m: "map_of doc' = (map_of doc)(''_id'' \<mapsto> inserted_id result)"
    using assms
    by (auto simp: insert_one_def store_new_def map_of_appended simp del: map_of_append
        split: option.splits if_splits)
  show "map_of doc' ''_id'' = Some (inserted_id result)"
    by (simp add: m)
qed

lemma ObjectId_example: "ObjectId ''6162636465666768696a6b6c'' = Inr (Oid ''abcdefghijkl'')"
  by code_simp

lemma ObjectId_other: "ObjectId ''6162636465666768696a6b6d'' = Inr (Oid ''abcdefghijkm'')"
  by code_simp

lemma hexlify_example: "hexlify ''abcdefghijkl'' = ''6162636465666768696a6b6c''"
  by code_simp

section \<open>The handlers of the configuration store: results\<close>

text \<open>
  Two identifiers that are not the spelling of 12 bytes, and are not answered with 400.
  Without a collection handle \<^verbatim>\<open>not-an-id\<close> is answered with 500: the handle is
  checked first. With a handle, a string of 24 characters made of eight digit pairs and
  eight spaces is accepted as an identifier of 8 bytes, and answered with 404.
\<close>

theorem get_config_unparsable_id_500:
  "ObjectId ''not-an-id'' = Inl (InvalidId ''not-an-id'')
   \<and> get_config None ''not-an-id'' = Inl (HTTPException 500 (StrV ''Collection not found''))
   \<and> ObjectId ''61 62 63 64 65 66 67 68 '' = Inr (Oid ''abcdefgh'')
   \<and> get_config (Some []) ''61 62 63 64 65 66 67 68 ''
       = Inl (HTTPException 404 (StrV ''Config not found''))"
proof -
  have "ObjectId ''not-an-id'' = Inl (InvalidId ''not-an-id'')"
    by (simp add: ObjectId_def)
  moreover have "get_config None ''not-an-id''
      = Inl (HTTPException 500 (StrV ''Collection not found''))"
    by (simp add: get_config_def)
  moreover have "ObjectId ''61 62 63 64 65 66 67 68 '' = Inr (Oid ''abcdefgh'')"
    by code_simp
  moreover have "get_config (Some []) ''61 62 63 64 65 66 67 68 ''
      = Inl (HTTPException 404 (StrV ''Config not found''))"
    by code_simp
  ultimately show ?thesis by simp
qed

text \<open>
  C1, as the code has it. Without a collection handle \<open>get_config\<close> raises 500 whatever
  the identifier. With a handle: a string that \<open>ObjectId\<close> refuses gives 400, and every
  string whose length is not 24 is refused; a string that \<open>ObjectId\<close> accepts has 24
  characters, two for each byte of the identifier and the others whitespace (so 12 bytes
  when there is no whitespace, fewer otherwise), and gives 404 when the identifier is the
  \<^verbatim>\<open>_id\<close> of no stored document, and otherwise the first such document, its \<^verbatim>\<open>_id\<close>
  replaced by the string form.
\<close>

theorem get_config_contract:
  "get_config None config_id = Inl (HTTPException 500 (StrV ''Collection not found''))
   \<and> (\<forall>e. ObjectId config_id = Inl e \<longrightarrow>
          get_config (Some c) config_id = Inl (HTTPException 400 (StrV ''Invalid config ID format'')))
   \<and> (length config_id \<noteq> 24 \<longrightarrow>
          get_config (Some c) config_id = Inl (HTTPException 400 (StrV ''Invalid config ID format'')))
   \<and> (\<forall>oid. ObjectId config_id = Inr oid \<longrightarrow>
          2 * length (binary oid) + length (filter is_space config_id) = 24
          \<and> (if ObjectIdV oid \<in> fst ` set c
             then \<exists>f. (ObjectIdV oid, f) \<in> set c
                   \<and> get_config (Some c) config_id
                       = Inr ((''_id'', StrV (hexlify (binary oid))) # f)
             else get_config (Some c) config_id
                    = Inl (HTTPException 404 (StrV ''Config not found''))))"
proof (intro conjI allI impI)
  show "get_config None config_id = Inl (HTTPException 500 (StrV ''Collection not found''))"
    by (simp add: get_config_def)
next
  fix e
  assume "ObjectId config_id = Inl e"
  then show "get_config (Some c) config_id
      = Inl (HTTPException 400 (StrV ''Invalid config ID format''))"
    by (simp add: get_config_def)
next
  assume "length config_id \<noteq> 24"
  then show "get_config (Some c) config_id
      = Inl (HTTPException 400 (StrV ''Invalid config ID format''))"
    by (simp add: get_config_def ObjectId_def)
next
  fix oid
  assume "ObjectId config_id = Inr oid"
  then show "2 * length (binary oid) + length (filter is_space config_id) = 24"
    by (rule ObjectId_length)
next
  fix oid
  assume p: "ObjectId config_id = Inr oid"
  show "if ObjectIdV oid \<in> fst ` set c
        then \<exists>f. (ObjectIdV oid, f) \<in> set c
              \<and> get_config (Some c) config_id = Inr ((''_id'', StrV (hexlify (binary oid))) # f)
        else get_config (Some c) config_id = Inl (HTTPException 404 (StrV ''Config not found''))"
  proof (cases "ObjectIdV oid \<in> fst ` set c")
    case True
    from find_one_in [OF this] obtain f where
      "(ObjectIdV oid, f) \<in> set c" "find_one c (ObjectIdV oid) = Some ((''_id'', ObjectIdV oid) # f)"
      by blast
    with p True show ?thesis by (auto simp: get_config_def)
  next
    case False
    then have "find_one c (ObjectIdV oid) = None" by (simp add: find_one_None)
    with p False show ?thesis by (simp add: get_config_def)
  qed
qed

text \<open>
  The three answers of \<open>get_config\<close> at a store of one document.
\<close>

theorem get_config_contract_witness:
  "get_config (Some [(ObjectIdV (Oid ''abcdefghijkl''), [(''field_a'', StrV ''orig'')])])
      ''6162636465666768696a6b6c''
     = Inr [(''_id'', StrV ''6162636465666768696a6b6c''), (''field_a'', StrV ''orig'')]
   \<and> get_config (Some [(ObjectIdV (Oid ''abcdefghijkl''), [(''field_a'', StrV ''orig'')])])
      ''6162636465666768696a6b6d''
     = Inl (HTTPException 404 (StrV ''Config not found''))
   \<and> get_config (Some []) ''not-an-id''
     = Inl (HTTPException 400 (StrV ''Invalid config ID format''))"
  using
    get_config_contract [of "''6162636465666768696a6b6c''"
      "[(ObjectIdV (Oid ''abcdefghijkl''), [(''field_a'', StrV ''orig'')])]"]
    get_config_contract [of "''6162636465666768696a6b6d''"
      "[(ObjectIdV (Oid ''abcdefghijkl''), [(''field_a'', StrV ''orig'')])]"]
    get_config_contract [of "''not-an-id''" "[]"]
    ObjectId_example ObjectId_other hexlify_example
  by (simp add: ObjectId_def [of "''not-an-id''"])

text \<open>
  C8. With a collection handle, \<open>get_configs\<close> returns a list and never an error: one
  entry for every stored document, in the order of the store, each with its \<^verbatim>\<open>_id\<close>
  replaced by its string form (the empty list for the empty collection).
\<close>

theorem get_configs_lists_all:
  "get_configs (Some c) = Inr (map (\<lambda>s. (''_id'', StrV (str_py (fst s))) # snd s) c)
   \<and> find_all c = map (\<lambda>s. (''_id'', fst s) # snd s) c"
  by (simp add: get_configs_def format_each_find_all) (simp add: find_all_def as_dict_def)

text \<open>
  Without a collection handle \<open>create_new_config\<close> neither returns the payload nor raises
  400: the call of \<^verbatim>\<open>insert_one\<close> on \<^verbatim>\<open>None\<close> raises \<^verbatim>\<open>AttributeError\<close>. And when
  \<^verbatim>\<open>insert_one\<close> itself raises (here: the new identifier is already stored), that
  exception leaves the handler.
\<close>

theorem create_new_config_no_handle:
  "create_new_config None
      \<lparr>field_values = [(''field_a'', StrV ''orig'')], fields_set = [''field_a'']\<rparr>
      (Oid ''abcdefghijkl'')
     = (Inl (Raised (AttributeError
          (sq @ ''NoneType'' @ sq @ '' object has no attribute '' @ sq @ ''insert_one'' @ sq))),
        None)
   \<and> create_new_config (Some [(ObjectIdV (Oid ''abcdefghijkl''), [])])
      \<lparr>field_values = [(''field_a'', StrV ''orig'')], fields_set = [''field_a'']\<rparr>
      (Oid ''abcdefghijkl'')
     = (Inl (Raised (DuplicateKeyError ''E11000 duplicate key error'')),
        Some [(ObjectIdV (Oid ''abcdefghijkl''), [])])"
proof -
  have "create_new_config None
      \<lparr>field_values = [(''field_a'', StrV ''orig'')], fields_set = [''field_a'']\<rparr>
      (Oid ''abcdefghijkl'')
     = (Inl (Raised (AttributeError
          (sq @ ''NoneType'' @ sq @ '' object has no attribute '' @ sq @ ''insert_one'' @ sq))),
        None)"
    by (simp add: create_new_config_def none_has_no_def)
  moreover have "create_new_config (Some [(ObjectIdV (Oid ''abcdefghijkl''), [])])
      \<lparr>field_values = [(''field_a'', StrV ''orig'')], fields_set = [''field_a'']\<rparr>
      (Oid ''abcdefghijkl'')
     = (Inl (Raised (DuplicateKeyError ''E11000 duplicate key error'')),
        Some [(ObjectIdV (Oid ''abcdefghijkl''), [])])"
    by code_simp
  ultimately show ?thesis by simp
qed

text \<open>
  C4, as the code has it, for a request that comes with a collection handle. The dict
  handed to \<^verbatim>\<open>insert_one\<close> holds the fields of the payload that were set, each once and
  with a value of the payload, and no field that was not set (for a payload with
  distinct field names: exactly the set fields, in their order). When \<^verbatim>\<open>insert_one\<close>
  returns a result, the document is stored under the reported identifier, and the handler
  returns the inserted dict with \<^verbatim>\<open>_id\<close> as a string if that identifier is truthy, and
  raises 400 otherwise. When \<^verbatim>\<open>insert_one\<close> raises, the exception leaves the handler.
  For a payload without \<^verbatim>\<open>_id\<close> the identifier is the generated one, so the answer is
  the payload followed by \<^verbatim>\<open>_id\<close>, or the duplicate-key error: never 400.
\<close>

theorem create_new_config_contract:
  "distinct (map fst (model_dump_exclude_unset config))
   \<and> set (model_dump_exclude_unset config)
       \<subseteq> {(k, v). (k, v) \<in> set (field_values config) \<and> k \<in> set (fields_set config)}
   \<and> fst ` set (model_dump_exclude_unset config)
       = {k. k \<in> fst ` set (field_values config) \<and> k \<in> set (fields_set config)}
   \<and> (distinct (map fst (field_values config))
        \<longrightarrow> model_dump_exclude_unset config
            = filter (\<lambda>(k, v). k \<in> set (fields_set config)) (field_values config))
   \<and> (\<forall>result config_data' c'.
         insert_one c (model_dump_exclude_unset config) fresh = Inr (result, config_data', c')
         \<longrightarrow> c' = c @ [(inserted_id result, AList.delete ''_id'' (model_dump_exclude_unset config))]
           \<and> map_of config_data'
               = (map_of (model_dump_exclude_unset config))(''_id'' \<mapsto> inserted_id result)
           \<and> create_new_config (Some c) config fresh
               = (if truthy (inserted_id result)
                  then Inr (AList.update ''_id'' (StrV (str_py (inserted_id result))) config_data')
                  else Inl (HTTPException 400 (StrV ''Configuration could not be created'')),
                  Some c'))
   \<and> (\<forall>e. insert_one c (model_dump_exclude_unset config) fresh = Inl e
         \<longrightarrow> create_new_config (Some c) config fresh = (Inl (Raised e), Some c))
   \<and> (map_of (model_dump_exclude_unset config) ''_id'' = None
        \<longrightarrow> create_new_config (Some c) config fresh
            = (if ObjectIdV fresh \<in> fst ` set c
               then (Inl (Raised (DuplicateKeyError ''E11000 duplicate key error'')), Some c)
               else (Inr (model_dump_exclude_unset config
                            @ [(''_id'', StrV (hexlify (binary fresh)))]),
                     Some (c @ [(ObjectIdV fresh, model_dump_exclude_unset config)]))))"
proof (intro conjI allI impI)
  let ?kept = "filter (\<lambda>(k, v). k \<in> set (fields_set config)) (field_values config)"
  show "distinct (map fst (model_dump_exclude_unset config))"
    by (rule distinct_model_dump)
  show "set (model_dump_exclude_unset config)
      \<subseteq> {(k, v). (k, v) \<in> set (field_values config) \<and> k \<in> set (fields_set config)}"
    using entries_dict_of [of ?kept] by (auto simp: model_dump_exclude_unset_def)
  show "fst ` set (model_dump_exclude_unset config)
      = {k. k \<in> fst ` set (field_values config) \<and> k \<in> set (fields_set config)}"
    by (force simp: model_dump_exclude_unset_def keys_dict_of)
  show "model_dump_exclude_unset config = ?kept" if "distinct (map fst (field_values config))"
  proof -
    from that have "distinct (map fst ?kept)" by (rule distinct_map_filter)
    then show ?thesis by (simp add: model_dump_exclude_unset_def dict_of_distinct)
  qed
next
  fix result config_data' c'
  assume i: "insert_one c (model_dump_exclude_unset config) fresh = Inr (result, config_data', c')"
  from insert_one_result(1) [OF i]
  show "c' = c @ [(inserted_id result, AList.delete ''_id'' (model_dump_exclude_unset config))]" .
  from insert_one_result(2) [OF i]
  show "map_of config_data'
      = (map_of (model_dump_exclude_unset config))(''_id'' \<mapsto> inserted_id result)" .
  from i insert_one_result(3) [OF i]
  show "create_new_config (Some c) config fresh
      = (if truthy (inserted_id result)
         then Inr (AList.update ''_id'' (StrV (str_py (inserted_id result))) config_data')
         else Inl (HTTPException 400 (StrV ''Configuration could not be created'')),
         Some c')"
    by (simp add: create_new_config_def format_mongo_obj_def)
next
  fix e
  assume "insert_one c (model_dump_exclude_unset config) fresh = Inl e"
  then show "create_new_config (Some c) config fresh = (Inl (Raised e), Some c)"
    by (simp add: create_new_config_def)
next
  assume "map_of (model_dump_exclude_unset config) ''_id'' = None"
  then show "create_new_config (Some c) config fresh
      = (if ObjectIdV fresh \<in> fst ` set c
         then (Inl (Raised (DuplicateKeyError ''E11000 duplicate key error'')), Some c)
         else (Inr (model_dump_exclude_unset config @ [(''_id'', StrV (hexlify (binary fresh)))]),
               Some (c @ [(ObjectIdV fresh, model_dump_exclude_unset config)])))"
    by (simp add: create_new_config_def insert_one_def store_new_def format_mongo_obj_def
        map_of_appended update_appended delete_appended Let_def del: map_of_append)
qed

text \<open>
  Three creations: one that succeeds; one whose payload carries the empty string as
  \<^verbatim>\<open>_id\<close>, which is stored and answered with 400; one where \<^verbatim>\<open>insert_one\<close> raises.
\<close>

theorem create_new_config_contract_witness:
  "distinct (map fst [(''field_a'', StrV ''orig''), (''field_b'', StrV ''keep''),
                      (''field_c'', IntV 3)])
   \<and> map_of (model_dump_exclude_unset
      \<lparr>field_values = [(''field_a'', StrV ''orig''), (''field_b'', StrV ''keep''),
                       (''field_c'', IntV 3)],
       fields_set = [''field_a'', ''field_b'']\<rparr>) ''_id'' = None
   \<and> create_new_config (Some [])
        \<lparr>field_values = [(''field_a'', StrV ''orig''), (''field_b'', StrV ''keep''),
                         (''field_c'', IntV 3)],
         fields_set = [''field_a'', ''field_b'']\<rparr>
        (Oid ''abcdefghijkl'')
      = (Inr [(''field_a'', StrV ''orig''), (''field_b'', StrV ''keep''),
              (''_id'', StrV ''6162636465666768696a6b6c'')],
         Some [(ObjectIdV (Oid ''abcdefghijkl''),
                [(''field_a'', StrV ''orig''), (''field_b'', StrV ''keep'')])])
   \<and> insert_one [] (model_dump_exclude_unset
        \<lparr>field_values = [(''_id'', StrV ''''), (''field_a'', StrV ''orig'')],
         fields_set = [''_id'', ''field_a'']\<rparr>) (Oid ''abcdefghijkl'')
      = Inr (\<lparr>inserted_id = StrV ''''\<rparr>, [(''_id'', StrV ''''), (''field_a'', StrV ''orig'')],
             [(StrV '''', [(''field_a'', StrV ''orig'')])])
   \<and> create_new_config (Some [])
        \<lparr>field_values = [(''_id'', StrV ''''), (''field_a'', StrV ''orig'')],
         fields_set = [''_id'', ''field_a'']\<rparr>
        (Oid ''abcdefghijkl'')
      = (Inl (HTTPException 400 (StrV ''Configuration could not be created'')),
         Some [(StrV '''', [(''field_a'', StrV ''orig'')])])
   \<and> insert_one [(ObjectIdV (Oid ''abcdefghijkl''), [])] (model_dump_exclude_unset
        \<lparr>field_values = [(''field_a'', StrV ''orig'')], fields_set = [''field_a'']\<rparr>)
        (Oid ''abcdefghijkl'')
      = Inl (DuplicateKeyError ''E11000 duplicate key error'')
   \<and> create_new_config (Some [(ObjectIdV (Oid ''abcdefghijkl''), [])])
        \<lparr>field_values = [(''field_a'', StrV ''orig'')], fields_set = [''field_a'']\<rparr>
        (Oid ''abcdefghijkl'')
      = (Inl (Raised (DuplicateKeyError ''E11000 duplicate key error'')),
         Some [(ObjectIdV (Oid ''abcdefghijkl''), [])])"
proof -
  let ?p = "\<lparr>field_values = [(''field_a'', StrV ''orig''), (''field_b'', StrV ''keep''),
                              (''field_c'', IntV 3)],
             fields_set = [''field_a'', ''field_b'']\<rparr>"
  let ?q = "\<lparr>field_values = [(''_id'', StrV ''''), (''field_a'', StrV ''orig'')],
             fields_set = [''_id'', ''field_a'']\<rparr>"
  let ?r = "\<lparr>field_values = [(''field_a'', StrV ''orig'')], fields_set = [''field_a'']\<rparr>"
  let ?c = "[(ObjectIdV (Oid ''abcdefghijkl''), [])]"
  have h0: "distinct (map fst [(''field_a'', StrV ''orig''), (''field_b'', StrV ''keep''),
                               (''field_c'', IntV 3)])"
    by simp
  have d: "model_dump_exclude_unset ?p = [(''field_a'', StrV ''orig''), (''field_b'', StrV ''keep'')]"
    by code_simp
  have h1: "map_of (model_dump_exclude_unset ?p) ''_id'' = None"
    by code_simp
  have x: "hexlify ''abcdefghijkl'' = ''6162636465666768696a6b6c''"
    by code_simp
  have h3: "insert_one [] (model_dump_exclude_unset ?q) (Oid ''abcdefghijkl'')
      = Inr (\<lparr>inserted_id = StrV ''''\<rparr>, [(''_id'', StrV ''''), (''field_a'', StrV ''orig'')],
             [(StrV '''', [(''field_a'', StrV ''orig'')])])"
    by code_simp
  have h4: "insert_one ?c (model_dump_exclude_unset ?r) (Oid ''abcdefghijkl'')
      = Inl (DuplicateKeyError ''E11000 duplicate key error'')"
    by code_simp
  from create_new_config_contract [of ?p "[]" "Oid ''abcdefghijkl''"] h1
  have a: "create_new_config (Some []) ?p (Oid ''abcdefghijkl'')
      = (Inr (model_dump_exclude_unset ?p @ [(''_id'', StrV (hexlify (binary (Oid ''abcdefghijkl''))))]),
         Some ([] @ [(ObjectIdV (Oid ''abcdefghijkl''), model_dump_exclude_unset ?p)]))"
    by simp
  from create_new_config_contract [of ?q "[]" "Oid ''abcdefghijkl''"] h3
  have b: "create_new_config (Some []) ?q (Oid ''abcdefghijkl'')
      = (Inl (HTTPException 400 (StrV ''Configuration could not be created'')),
         Some [(StrV '''', [(''field_a'', StrV ''orig'')])])"
    by simp
  from create_new_config_contract [of ?r ?c "Oid ''abcdefghijkl''"] h4
  have e: "create_new_config (Some ?c) ?r (Oid ''abcdefghijkl'')
      = (Inl (Raised (DuplicateKeyError ''E11000 duplicate key error'')), Some ?c)"
    by simp
  from a b e h0 h1 h3 h4 show ?thesis by (simp add: d x)
qed

text \<open>
  C2. For a parsed identifier of a stored document and a payload that does not name
  \<^verbatim>\<open>_id\<close>: after \<open>update_config\<close> the stored document has the payload's set fields
  with the payload's values and every other field as before, the other documents are
  untouched, and the handler returns the re-fetched document with \<^verbatim>\<open>_id\<close> as a string
  (or 400 when nothing changed).
\<close>

theorem update_config_partial:
  assumes "ObjectId config_id = Inr oid"
    and "find_one c (ObjectIdV oid) = Some config_data"
    and "map_of (model_dump_exclude_unset updated_config) ''_id'' = None"
  shows "\<exists>res c' d.
           update_config (Some c) config_id updated_config = (res, Some c')
         \<and> find_one c' (ObjectIdV oid) = Some d
         \<and> map_of d = map_of config_data ++ map_of (model_dump_exclude_unset updated_config)
         \<and> (\<forall>j. j \<noteq> ObjectIdV oid \<longrightarrow> find_one c' j = find_one c j)
         \<and> map fst c' = map fst c
         \<and> (if d = config_data
            then res = Inl (HTTPException 400 (StrV ''Configuration could not be updated''))
            else res = Inr (AList.update ''_id'' (StrV (hexlify (binary oid))) d))"
proof -
  let ?upd = "model_dump_exclude_unset updated_config"
  from update_one_found [OF assms(2) assms(3)] obtain c' f where
    d: "config_data = (''_id'', ObjectIdV oid) # f"
    and u: "update_one c (ObjectIdV oid) ?upd =
         Inr (\<lparr>matched_count = 1, modified_count = (if set_fields ?upd f = f then 0 else 1)\<rparr>, c')"
    and f: "find_one c' (ObjectIdV oid) = Some ((''_id'', ObjectIdV oid) # set_fields ?upd f)"
    and o: "\<forall>j. j \<noteq> ObjectIdV oid \<longrightarrow> find_one c' j = find_one c j"
    and m: "map fst c' = map fst c"
    by blast
  let ?d = "(''_id'', ObjectIdV oid) # set_fields ?upd f"
  have fields: "map_of ?d = map_of config_data ++ map_of ?upd"
    using assms(3) distinct_model_dump [of updated_config]
    by (auto simp: d map_of_set_fields fun_eq_iff map_add_def split: option.splits)
  show ?thesis
  proof (cases "set_fields ?upd f = f")
    case True
    with assms u have "update_config (Some c) config_id updated_config
        = (Inl (HTTPException 400 (StrV ''Configuration could not be updated'')), Some c')"
      by (simp add: update_config_def)
    with f fields o m True d show ?thesis by simp
  next
    case False
    with assms u f have "update_config (Some c) config_id updated_config
        = (Inr (AList.update ''_id'' (StrV (hexlify (binary oid))) ?d), Some c')"
      by (simp add: update_config_def format_mongo_obj_def)
    with f fields o m False d show ?thesis by simp
  qed
qed

text \<open>
  The update of \<^verbatim>\<open>field_a\<close> alone, on a document with \<^verbatim>\<open>field_a\<close> and \<^verbatim>\<open>field_b\<close>.
\<close>

theorem update_config_partial_witness:
  "ObjectId ''6162636465666768696a6b6c'' = Inr (Oid ''abcdefghijkl'')
   \<and> find_one [(ObjectIdV (Oid ''abcdefghijkl''),
                 [(''field_a'', StrV ''orig''), (''field_b'', StrV ''keep'')])]
        (ObjectIdV (Oid ''abcdefghijkl''))
      = Some [(''_id'', ObjectIdV (Oid ''abcdefghijkl'')),
              (''field_a'', StrV ''orig''), (''field_b'', StrV ''keep'')]
   \<and> map_of (model_dump_exclude_unset
        \<lparr>field_values = [(''field_a'', StrV ''x''), (''field_b'', StrV ''default'')],
         fields_set = [''field_a'']\<rparr>) ''_id'' = None
   \<and> update_config
        (Some [(ObjectIdV (Oid ''abcdefghijkl''),
                [(''field_a'', StrV ''orig''), (''field_b'', StrV ''keep'')])])
        ''6162636465666768696a6b6c''
        \<lparr>field_values = [(''field_a'', StrV ''x''), (''field_b'', StrV ''default'')],
         fields_set = [''field_a'']\<rparr>
      = (Inr [(''_id'', StrV ''6162636465666768696a6b6c''),
              (''field_a'', StrV ''x''), (''field_b'', StrV ''keep'')],
         Some [(ObjectIdV (Oid ''abcdefghijkl''),
                [(''field_a'', StrV ''x''), (''field_b'', StrV ''keep'')])])"
proof -
  let ?c = "[(ObjectIdV (Oid ''abcdefghijkl''),
              [(''field_a'', StrV ''orig''), (''field_b'', StrV ''keep'')])]"
  let ?p = "\<lparr>field_values = [(''field_a'', StrV ''x''), (''field_b'', StrV ''default'')],
             fields_set = [''field_a'']\<rparr>"
  have h1: "ObjectId ''6162636465666768696a6b6c'' = Inr (Oid ''abcdefghijkl'')"
    by code_simp
  have h2: "find_one ?c (ObjectIdV (Oid ''abcdefghijkl''))
      = Some [(''_id'', ObjectIdV (Oid ''abcdefghijkl'')),
              (''field_a'', StrV ''orig''), (''field_b'', StrV ''keep'')]"
    by code_simp
  have h3: "map_of (model_dump_exclude_unset ?p) ''_id'' = None"
    by code_simp
  have r: "update_config (Some ?c) ''6162636465666768696a6b6c'' ?p
      = (Inr [(''_id'', StrV ''6162636465666768696a6b6c''),
              (''field_a'', StrV ''x''), (''field_b'', StrV ''keep'')],
         Some [(ObjectIdV (Oid ''abcdefghijkl''),
                [(''field_a'', StrV ''x''), (''field_b'', StrV ''keep'')])])"
    by code_simp
  from update_config_partial [OF h1 h2 h3] h1 h2 h3 r show ?thesis by simp
qed

text \<open>
  C3. For a parsed identifier of a stored document: whenever the store reports
  \<^verbatim>\<open>modified_count = 0\<close>, \<open>update_config\<close> raises 400 with the one generic detail; in
  particular when every field of the payload already has its value in the stored
  document, and then the collection is unchanged.
\<close>

theorem update_config_zero_modified:
  assumes "ObjectId config_id = Inr oid"
    and "find_one c (ObjectIdV oid) = Some config_data"
  shows "(\<forall>result c'.
            update_one c (ObjectIdV oid) (model_dump_exclude_unset updated_config) = Inr (result, c')
            \<longrightarrow> modified_count result = 0
            \<longrightarrow> update_config (Some c) config_id updated_config
                = (Inl (HTTPException 400 (StrV ''Configuration could not be updated'')), Some c'))
       \<and> ((\<forall>k v. (k, v) \<in> set (model_dump_exclude_unset updated_config)
                  \<longrightarrow> map_of config_data k = Some v)
            \<longrightarrow> update_config (Some c) config_id updated_config
                = (Inl (HTTPException 400 (StrV ''Configuration could not be updated'')), Some c))"
proof (intro conjI allI impI)
  fix result c'
  assume "update_one c (ObjectIdV oid) (model_dump_exclude_unset updated_config) = Inr (result, c')"
    and "modified_count result = 0"
  with assms show "update_config (Some c) config_id updated_config
      = (Inl (HTTPException 400 (StrV ''Configuration could not be updated'')), Some c')"
    by (simp add: update_config_def)
next
  assume "\<forall>k v. (k, v) \<in> set (model_dump_exclude_unset updated_config)
            \<longrightarrow> map_of config_data k = Some v"
  then have "update_one c (ObjectIdV oid) (model_dump_exclude_unset updated_config)
      = Inr (\<lparr>matched_count = 1, modified_count = 0\<rparr>, c)"
    using assms(2) by (intro update_one_noop) auto
  with assms show "update_config (Some c) config_id updated_config
      = (Inl (HTTPException 400 (StrV ''Configuration could not be updated'')), Some c)"
    by (simp add: update_config_def)
qed

text \<open>
  An update that sets \<^verbatim>\<open>field_a\<close> to the value it has.
\<close>

theorem update_config_zero_modified_witness:
  "ObjectId ''6162636465666768696a6b6c'' = Inr (Oid ''abcdefghijkl'')
   \<and> find_one [(ObjectIdV (Oid ''abcdefghijkl''),
                 [(''field_a'', StrV ''orig''), (''field_b'', StrV ''keep'')])]
        (ObjectIdV (Oid ''abcdefghijkl''))
      = Some [(''_id'', ObjectIdV (Oid ''abcdefghijkl'')),
              (''field_a'', StrV ''orig''), (''field_b'', StrV ''keep'')]
   \<and> update_one [(ObjectIdV (Oid ''abcdefghijkl''),
                   [(''field_a'', StrV ''orig''), (''field_b'', StrV ''keep'')])]
        (ObjectIdV (Oid ''abcdefghijkl''))
        (model_dump_exclude_unset
          \<lparr>field_values = [(''field_a'', StrV ''orig''), (''field_b'', StrV ''default'')],
           fields_set = [''field_a'']\<rparr>)
      = Inr (\<lparr>matched_count = 1, modified_count = 0\<rparr>,
             [(ObjectIdV (Oid ''abcdefghijkl''),
               [(''field_a'', StrV ''orig''), (''field_b'', StrV ''keep'')])])
   \<and> update_config
        (Some [(ObjectIdV (Oid ''abcdefghijkl''),
                [(''field_a'', StrV ''orig''), (''field_b'', StrV ''keep'')])])
        ''6162636465666768696a6b6c''
        \<lparr>field_values = [(''field_a'', StrV ''orig''), (''field_b'', StrV ''default'')],
         fields_set = [''field_a'']\<rparr>
      = (Inl (HTTPException 400 (StrV ''Configuration could not be updated'')),
         Some [(ObjectIdV (Oid ''abcdefghijkl''),
                [(''field_a'', StrV ''orig''), (''field_b'', StrV ''keep'')])])"
proof -
  let ?c = "[(ObjectIdV (Oid ''abcdefghijkl''),
              [(''field_a'', StrV ''orig''), (''field_b'', StrV ''keep'')])]"
  let ?p = "\<lparr>field_values = [(''field_a'', StrV ''orig''), (''field_b'', StrV ''default'')],
             fields_set = [''field_a'']\<rparr>"
  have h1: "ObjectId ''6162636465666768696a6b6c'' = Inr (Oid ''abcdefghijkl'')"
    by code_simp
  have h2: "find_one ?c (ObjectIdV (Oid ''abcdefghijkl''))
      = Some [(''_id'', ObjectIdV (Oid ''abcdefghijkl'')),
              (''field_a'', StrV ''orig''), (''field_b'', StrV ''keep'')]"
    by code_simp
  have h3: "update_one ?c (ObjectIdV (Oid ''abcdefghijkl'')) (model_dump_exclude_unset ?p)
      = Inr (\<lparr>matched_count = 1, modified_count = 0\<rparr>, ?c)"
    by code_simp
  from update_config_zero_modified [OF h1 h2, of ?p] h3
  have "update_config (Some ?c) ''6162636465666768696a6b6c'' ?p
      = (Inl (HTTPException 400 (StrV ''Configuration could not be updated'')), Some ?c)"
    by simp
  with h1 h2 h3 show ?thesis by simp
qed

text \<open>
  C5. For a parsed identifier and a collection handle: if the identifier is stored,
  \<open>delete_config\<close> removes one document and returns the confirmation, and (identifiers
  being unique) the same call on the resulting collection raises 404; if it is not
  stored, nothing is removed and the call raises 404.
\<close>

theorem delete_config_contract:
  assumes "ObjectId config_id = Inr oid"
  shows "if ObjectIdV oid \<in> fst ` set c
         then \<exists>c'. delete_config (Some c) config_id
                      = (Inr [(''message'', StrV ''Config deleted successfully'')], Some c')
                  \<and> length c = Suc (length c')
                  \<and> (distinct (map fst c) \<longrightarrow>
                       delete_config (Some c') config_id
                         = (Inl (HTTPException 404 (StrV ''Config not found'')), Some c'))
         else delete_config (Some c) config_id
                = (Inl (HTTPException 404 (StrV ''Config not found'')), Some c)"
proof (cases "ObjectIdV oid \<in> fst ` set c")
  case True
  from delete_one_present [OF this] obtain c' where
    d: "delete_one c (ObjectIdV oid) = (\<lparr>deleted_count = 1\<rparr>, c')"
    and l: "length c = Suc (length c')"
    and u: "distinct (map fst c) \<longrightarrow> ObjectIdV oid \<notin> fst ` set c'"
    by blast
  from assms d have first: "delete_config (Some c) config_id
      = (Inr [(''message'', StrV ''Config deleted successfully'')], Some c')"
    by (simp add: delete_config_def)
  have second: "delete_config (Some c') config_id
      = (Inl (HTTPException 404 (StrV ''Config not found'')), Some c')"
    if "distinct (map fst c)"
    using that u assms by (simp add: delete_config_def delete_one_absent)
  from True first l second show ?thesis by auto
next
  case False
  with assms show ?thesis by (simp add: delete_config_def delete_one_absent)
qed

text \<open>
  Deleting the only document of a collection, twice.
\<close>

theorem delete_config_contract_witness:
  "ObjectId ''6162636465666768696a6b6c'' = Inr (Oid ''abcdefghijkl'')
   \<and> ObjectIdV (Oid ''abcdefghijkl'')
       \<in> fst ` set [(ObjectIdV (Oid ''abcdefghijkl''), [(''field_a'', StrV ''orig'')])]
   \<and> distinct (map fst [(ObjectIdV (Oid ''abcdefghijkl''), [(''field_a'', StrV ''orig'')])])
   \<and> delete_config (Some [(ObjectIdV (Oid ''abcdefghijkl''), [(''field_a'', StrV ''orig'')])])
        ''6162636465666768696a6b6c''
      = (Inr [(''message'', StrV ''Config deleted successfully'')], Some [])
   \<and> delete_config (Some []) ''6162636465666768696a6b6c''
      = (Inl (HTTPException 404 (StrV ''Config not found'')), Some [])"
proof -
  let ?c = "[(ObjectIdV (Oid ''abcdefghijkl''), [(''field_a'', StrV ''orig'')])]"
  have h1: "ObjectId ''6162636465666768696a6b6c'' = Inr (Oid ''abcdefghijkl'')"
    by code_simp
  from delete_config_contract [OF h1, of ?c]
  obtain c' where
    1: "delete_config (Some ?c) ''6162636465666768696a6b6c''
        = (Inr [(''message'', StrV ''Config deleted successfully'')], Some c')"
    and 2: "length ?c = Suc (length c')"
    and 3: "delete_config (Some c') ''6162636465666768696a6b6c''
        = (Inl (HTTPException 404 (StrV ''Config not found'')), Some c')"
    by auto
  from 2 have "c' = []" by simp
  with 1 3 h1 show ?thesis by simp
qed


end
